theory Spec2Isabelle
  imports Main "HOL-Library.Word" "HOL-Library.Sublist"
begin

section \<open>Kubernetes objects handled by the operator\<close>

text \<open>
  The operator (package \<open>autoscaler\<close>, file \<open>pkg/autoscaler/handler.go\<close>) receives
  events that carry a \<open>ClusterAutoscaler\<close> resource and keeps one \<open>Deployment\<close> per
  resource in the object store.  The Kubernetes API types are external to the repository;
  the records below hold the fields the handler reads or writes together with some further
  fields of each type, so that drift and server-side defaulting can be expressed.
  Go's \<open>map[string]string\<close> is a partial function, a slice is a list (a \<open>nil\<close> slice and an
  empty one are both \<open>[]\<close>), a pointer to a scalar is an \<open>option\<close>, and \<open>int32\<close> is a 32-bit
  word.
\<close>

type_synonym int32 = "32 word"

record TypeMeta =
  APIVersion :: string
  Kind :: string

record OwnerReference =
  ref_APIVersion :: string
  ref_Kind :: string
  ref_Name :: string
  ref_UID :: string
  ref_Controller :: "bool option"
  ref_BlockOwnerDeletion :: "bool option"

record ObjectMeta =
  Name :: string
  Namespace :: string
  UID :: string
  ResourceVersion :: string
  Generation :: int
  Labels :: "string \<rightharpoonup> string"
  Annotations :: "string \<rightharpoonup> string"
  OwnerReferences :: "OwnerReference list"

record Container =
  container_Name :: string
  Image :: string
  Command :: "string list"
  Args :: "string list"
  ImagePullPolicy :: string

record Toleration =
  Key :: string
  Operator :: string
  toleration_Value :: string
  Effect :: string

record PodSpec =
  ServiceAccountName :: string
  Containers :: "Container list"
  Tolerations :: "Toleration list"
  RestartPolicy :: string
  DNSPolicy :: string
  SchedulerName :: string

record PodTemplateSpec =
  template_ObjectMeta :: ObjectMeta
  template_Spec :: PodSpec

record LabelSelector =
  MatchLabels :: "string \<rightharpoonup> string"

record DeploymentSpec =
  Replicas :: "int32 option"
  Selector :: "LabelSelector option"
  Template :: PodTemplateSpec

record DeploymentStatus =
  ObservedGeneration :: int
  status_Replicas :: int32
  UpdatedReplicas :: int32
  AvailableReplicas :: int32

record Deployment =
  deployment_TypeMeta :: TypeMeta
  deployment_ObjectMeta :: ObjectMeta
  deployment_Spec :: DeploymentSpec
  deployment_Status :: DeploymentStatus

text \<open>
  The \<open>v1alpha1\<close> types of the configuration resource.  Their declarations are not among
  the sources; the fields are the ones the test helper \<open>NewClusterAutoscaler\<close> fills in,
  and the two scale-down delays whose flags \<open>TestAutoscalerArgs\<close> expects to be missing.
\<close>

record ResourceRange =
  Min :: int32
  Max :: int32

record GPULimit =
  gpu_Type :: string
  gpu_Min :: int32
  gpu_Max :: int32

record ResourceLimits =
  MaxNodesTotal :: "int32 option"
  Cores :: "ResourceRange option"
  Memory :: "ResourceRange option"
  GPUS :: "GPULimit list"

record ScaleDownConfig =
  Enabled :: bool
  DelayAfterAdd :: "string option"
  DelayAfterDelete :: "string option"
  DelayAfterFailure :: "string option"
  UnneededTime :: "string option"

record ClusterAutoscalerSpec =
  spec_ResourceLimits :: "ResourceLimits option"
  spec_ScaleDown :: "ScaleDownConfig option"
  MaxPodGracePeriod :: "int32 option"
  PodPriorityThreshold :: "int32 option"

record ClusterAutoscaler =
  ca_TypeMeta :: TypeMeta
  ca_ObjectMeta :: ObjectMeta
  ca_Spec :: ClusterAutoscalerSpec

section \<open>Errors\<close>

text \<open>
  A Go \<open>error\<close> is either a status error of the API machinery, which carries a reason,
  or a plain error string as \<open>fmt.Errorf\<close> builds it.  A \<open>nil\<close> error is \<open>None\<close>.
\<close>

datatype StatusReason =
  StatusReasonUnknown
  | StatusReasonAlreadyExists
  | StatusReasonNotFound
  | StatusReasonConflict
  | StatusReasonInternalError

datatype go_error =
  StatusError StatusReason string
  | ErrorString string

fun Error :: "go_error \<Rightarrow> string" where
  "Error (StatusError r msg) = msg"
| "Error (ErrorString msg) = msg"

fun ReasonForError :: "go_error option \<Rightarrow> StatusReason" where
  "ReasonForError (Some (StatusError r msg)) = r"
| "ReasonForError _ = StatusReasonUnknown"

definition IsAlreadyExists :: "go_error option \<Rightarrow> bool" where
  "IsAlreadyExists err = (ReasonForError err = StatusReasonAlreadyExists)"

definition IsNotFound :: "go_error option \<Rightarrow> bool" where
  "IsNotFound err = (ReasonForError err = StatusReasonNotFound)"

text \<open>
  \<open>fmt.Errorf(format + "%v", err)\<close>: the text before the verb followed by the error's
  text; the verb \<open>%v\<close> prints a \<open>nil\<close> error as \<open><nil>\<close>.
\<close>

fun Errorf :: "string \<Rightarrow> go_error option \<Rightarrow> go_error" where
  "Errorf format (Some err) = ErrorString (format @ Error err)"
| "Errorf format None = ErrorString (format @ ''<nil>'')"

section \<open>The builder\<close>

definition caImage :: string where
  "caImage = ''quay.io/bison/cluster-autoscaler:a554b4f5''"

definition criticalPod :: string where
  "criticalPod = ''scheduler.alpha.kubernetes.io/critical-pod''"

definition caServiceAccount :: string where
  "caServiceAccount = ''cluster-autoscaler''"

definition TolerationOpExists :: string where
  "TolerationOpExists = ''Exists''"

text \<open>Zero values of the Go structs, which a composite literal leaves in unnamed fields.\<close>

definition zero_ObjectMeta :: ObjectMeta where
  "zero_ObjectMeta =
     \<lparr>Name = [], Namespace = [], UID = [], ResourceVersion = [], Generation = 0,
      Labels = Map.empty, Annotations = Map.empty, OwnerReferences = []\<rparr>"

definition zero_DeploymentStatus :: DeploymentStatus where
  "zero_DeploymentStatus =
     \<lparr>ObservedGeneration = 0, status_Replicas = 0, UpdatedReplicas = 0,
      AvailableReplicas = 0\<rparr>"

text \<open>
  \<open>autoscalerPodSpec\<close>.  The function \<open>AutoscalerArgs(ca)\<close> it calls is not in
  \<open>handler.go\<close>; it is the parameter \<open>caArgs\<close> here and in every function below.
\<close>

definition autoscalerPodSpec :: "(ClusterAutoscaler \<Rightarrow> string list) \<Rightarrow> ClusterAutoscaler \<Rightarrow> PodSpec" where
  "autoscalerPodSpec caArgs ca =
     (let args = caArgs ca in
      \<lparr>ServiceAccountName = caServiceAccount,
       Containers =
         [\<lparr>container_Name = ''cluster-autoscaler'', Image = caImage,
           Command = [''/cluster-autoscaler''], Args = args, ImagePullPolicy = []\<rparr>],
       Tolerations =
         [\<lparr>Key = ''CriticalAddonsOnly'', Operator = TolerationOpExists,
           toleration_Value = [], Effect = []\<rparr>],
       RestartPolicy = [], DNSPolicy = [], SchedulerName = []\<rparr>)"

text \<open>\<open>asOwner\<close>: an owner reference to the configuration resource.\<close>

definition asOwner :: "ClusterAutoscaler \<Rightarrow> OwnerReference" where
  "asOwner ca =
     \<lparr>ref_APIVersion = APIVersion (ca_TypeMeta ca), ref_Kind = Kind (ca_TypeMeta ca),
      ref_Name = Name (ca_ObjectMeta ca), ref_UID = UID (ca_ObjectMeta ca),
      ref_Controller = Some True, ref_BlockOwnerDeletion = None\<rparr>"

text \<open>\<open>addOwnerRefToObject\<close> appends the reference to the object's owner references.\<close>

definition addOwnerRefToObject :: "Deployment \<Rightarrow> OwnerReference \<Rightarrow> Deployment" where
  "addOwnerRefToObject obj ownerRef =
     obj\<lparr>deployment_ObjectMeta :=
       (deployment_ObjectMeta obj)\<lparr>OwnerReferences :=
          OwnerReferences (deployment_ObjectMeta obj) @ [ownerRef]\<rparr>\<rparr>"

definition autoscalerDeployment :: "(ClusterAutoscaler \<Rightarrow> string list) \<Rightarrow> ClusterAutoscaler \<Rightarrow> Deployment" where
  "autoscalerDeployment caArgs ca =
     (let replicas = (1 :: int32);
          deploymentName = ''cluster-autoscaler-'' @ Name (ca_ObjectMeta ca);
          labels = [''cluster-autoscaler'' \<mapsto> Name (ca_ObjectMeta ca),
                    ''app'' \<mapsto> ''cluster-autoscaler''];
          annotations = [criticalPod \<mapsto> []];
          podSpec = autoscalerPodSpec caArgs ca;
          dep =
            \<lparr>deployment_TypeMeta = \<lparr>APIVersion = ''apps/v1'', Kind = ''Deployment''\<rparr>,
             deployment_ObjectMeta =
               zero_ObjectMeta\<lparr>Name := deploymentName, Namespace := Namespace (ca_ObjectMeta ca)\<rparr>,
             deployment_Spec =
               \<lparr>Replicas = Some replicas,
                Selector = Some \<lparr>MatchLabels = labels\<rparr>,
                Template =
                  \<lparr>template_ObjectMeta =
                     zero_ObjectMeta\<lparr>Labels := labels, Annotations := annotations\<rparr>,
                   template_Spec = podSpec\<rparr>\<rparr>,
             deployment_Status = zero_DeploymentStatus\<rparr>
      in addOwnerRefToObject dep (asOwner ca))"

section \<open>The object store and the handler's state\<close>

text \<open>
  \<open>sdk.Create\<close>, \<open>sdk.Get\<close> and \<open>sdk.Update\<close> belong to the operator SDK and talk to
  the API server.  They are parameters of the handler: three functions over a store of
  any type \<open>'w\<close>, each returning the error (\<open>None\<close> for \<open>nil\<close>) and the store after the
  call.  \<open>sdk.Get\<close> writes the object read into the object it is given; here it returns
  that object beside the error.
\<close>

record 'w sdk_ops =
  create_op :: "Deployment \<Rightarrow> 'w \<Rightarrow> go_error option \<times> 'w"
  get_op :: "Deployment \<Rightarrow> 'w \<Rightarrow> (go_error option \<times> Deployment) \<times> 'w"
  update_op :: "Deployment \<Rightarrow> 'w \<Rightarrow> go_error option \<times> 'w"

datatype sdk_call =
  CreateCall Deployment
  | GetCall Deployment
  | UpdateCall Deployment

text \<open>
  The state a reconciliation runs in: the store, the calls made to it so far (oldest
  first), and the value of the counter \<open>Metrics.operatorErrors\<close> the handler holds.
\<close>

record 'w state =
  store :: 'w
  calls :: "sdk_call list"
  operatorErrors :: nat

definition sdk_Create :: "'w sdk_ops \<Rightarrow> Deployment \<Rightarrow> 'w state \<Rightarrow> go_error option \<times> 'w state" where
  "sdk_Create sdk dep s =
     (case create_op sdk dep (store s) of
        (err, w) \<Rightarrow> (err, s\<lparr>store := w, calls := calls s @ [CreateCall dep]\<rparr>))"

definition sdk_Get :: "'w sdk_ops \<Rightarrow> Deployment \<Rightarrow> 'w state \<Rightarrow> (go_error option \<times> Deployment) \<times> 'w state" where
  "sdk_Get sdk dep s =
     (case get_op sdk dep (store s) of
        (r, w) \<Rightarrow> (r, s\<lparr>store := w, calls := calls s @ [GetCall dep]\<rparr>))"

definition sdk_Update :: "'w sdk_ops \<Rightarrow> Deployment \<Rightarrow> 'w state \<Rightarrow> go_error option \<times> 'w state" where
  "sdk_Update sdk dep s =
     (case update_op sdk dep (store s) of
        (err, w) \<Rightarrow> (err, s\<lparr>store := w, calls := calls s @ [UpdateCall dep]\<rparr>))"

section \<open>The handler\<close>

text \<open>
  \<open>reflect.DeepEqual(x, y)\<close> takes two values of any type.  Values of distinct types are
  never deeply equal; values of one type are compared structurally, a pointer by what it
  points to.  The handler passes a \<open>corev1.PodSpec\<close> and a \<open>*corev1.PodSpec\<close>.
\<close>

datatype go_value =
  PodSpecValue PodSpec
  | PodSpecPointer PodSpec

fun DeepEqual :: "go_value \<Rightarrow> go_value \<Rightarrow> bool" where
  "DeepEqual (PodSpecValue a) (PodSpecValue b) = (a = b)"
| "DeepEqual (PodSpecPointer a) (PodSpecPointer b) = (a = b)"
| "DeepEqual _ _ = False"

definition updateAutoscaler :: "'w sdk_ops \<Rightarrow> (ClusterAutoscaler \<Rightarrow> string list) \<Rightarrow> ClusterAutoscaler \<Rightarrow> 'w state \<Rightarrow> go_error option \<times> 'w state" where
  "updateAutoscaler sdk caArgs ca s =
     (let dep = autoscalerDeployment caArgs ca in
      case sdk_Get sdk dep s of
        ((err, dep1), s1) \<Rightarrow>
          if err \<noteq> None
          then (Some (Errorf ''failed to get autoscaler deployment: '' err), s1)
          else
            (let podSpec = autoscalerPodSpec caArgs ca in
             if \<not> DeepEqual (PodSpecValue (template_Spec (Template (deployment_Spec dep1))))
                    (PodSpecPointer podSpec)
             then
               (let dep2 = dep1\<lparr>deployment_Spec :=
                      (deployment_Spec dep1)\<lparr>Template :=
                         (Template (deployment_Spec dep1))\<lparr>template_Spec := podSpec\<rparr>\<rparr>\<rparr>
                in case sdk_Update sdk dep2 s1 of
                     (err2, s2) \<Rightarrow>
                       if err2 \<noteq> None
                       then (Some (Errorf ''failed to update autoscaler deployment: '' err2), s2)
                       else (None, s2))
             else (None, s1)))"

text \<open>
  An event carries an object of any kind and a deletion flag; \<open>Handle\<close> switches on the
  object's type.
\<close>

datatype Object =
  ClusterAutoscalerObject ClusterAutoscaler
  | DeploymentObject Deployment
  | OtherObject TypeMeta

record Event =
  Object :: Object
  Deleted :: bool

definition Handle :: "'w sdk_ops \<Rightarrow> (ClusterAutoscaler \<Rightarrow> string list) \<Rightarrow> Event \<Rightarrow> 'w state \<Rightarrow> go_error option \<times> 'w state" where
  "Handle sdk caArgs event s =
     (case Object event of
        ClusterAutoscalerObject clusterAutoscaler \<Rightarrow>
          if Deleted event then (None, s)
          else
            (let dep = autoscalerDeployment caArgs clusterAutoscaler in
             case sdk_Create sdk dep s of
               (err, s1) \<Rightarrow>
                 if err \<noteq> None \<and> \<not> IsAlreadyExists err
                 then (Some (Errorf ''failed to create autoscaler deployment: '' err), s1)
                 else if IsAlreadyExists err
                 then updateAutoscaler sdk caArgs clusterAutoscaler s1
                 else (None, s1))
      | _ \<Rightarrow> (None, s))"

section \<open>Stores and inputs for concrete runs\<close>

text \<open>
  An in-memory object store that keeps objects as written, keyed by namespace and name,
  as the fake client of the tests does: creating an existing key fails with
  ``already exists'', reading or updating a missing key fails with ``not found''.
\<close>

type_synonym memory_store = "string \<times> string \<rightharpoonup> Deployment"

definition objectKey :: "Deployment \<Rightarrow> string \<times> string" where
  "objectKey dep = (Namespace (deployment_ObjectMeta dep), Name (deployment_ObjectMeta dep))"

definition memory_sdk :: "memory_store sdk_ops" where
  "memory_sdk =
     \<lparr>create_op = (\<lambda>dep w.
        case w (objectKey dep) of
          Some old \<Rightarrow> (Some (StatusError StatusReasonAlreadyExists ''already exists''), w)
        | None \<Rightarrow> (None, w(objectKey dep \<mapsto> dep))),
      get_op = (\<lambda>dep w.
        case w (objectKey dep) of
          Some old \<Rightarrow> ((None, old), w)
        | None \<Rightarrow> ((Some (StatusError StatusReasonNotFound ''not found''), dep), w)),
      update_op = (\<lambda>dep w.
        case w (objectKey dep) of
          Some old \<Rightarrow> (None, w(objectKey dep \<mapsto> dep))
        | None \<Rightarrow> (Some (StatusError StatusReasonNotFound ''not found''), w))\<rparr>"

text \<open>A store that cannot be reached: every call fails with the given error.\<close>

definition unreachable_sdk :: "go_error \<Rightarrow> 'w sdk_ops" where
  "unreachable_sdk e =
     \<lparr>create_op = (\<lambda>dep w. (Some e, w)),
      get_op = (\<lambda>dep w. ((Some e, dep), w)),
      update_op = (\<lambda>dep w. (Some e, w))\<rparr>"

definition initial_state :: "'w \<Rightarrow> 'w state" where
  "initial_state w = \<lparr>store = w, calls = [], operatorErrors = 0\<rparr>"

text \<open>The configuration resource of the tests (\<open>NewClusterAutoscaler\<close>).\<close>

definition NvidiaGPU :: string where
  "NvidiaGPU = ''nvidia.com/gpu''"

definition TestNamespace :: string where
  "TestNamespace = ''test''"

definition TestCloudProvider :: string where
  "TestCloudProvider = ''testProvider''"

definition NewClusterAutoscaler :: ClusterAutoscaler where
  "NewClusterAutoscaler =
     \<lparr>ca_TypeMeta =
        \<lparr>APIVersion = ''autoscaling.openshift.io/v1alpha1'', Kind = ''ClusterAutoscaler''\<rparr>,
      ca_ObjectMeta = zero_ObjectMeta\<lparr>Name := ''test'', Namespace := TestNamespace\<rparr>,
      ca_Spec =
        \<lparr>spec_ResourceLimits =
           Some \<lparr>MaxNodesTotal = Some 100,
                 Cores = Some \<lparr>Min = 16, Max = 32\<rparr>,
                 Memory = Some \<lparr>Min = 32, Max = 64\<rparr>,
                 GPUS = [\<lparr>gpu_Type = NvidiaGPU, gpu_Min = 4, gpu_Max = 8\<rparr>]\<rparr>,
         spec_ScaleDown =
           Some \<lparr>Enabled = True, DelayAfterAdd = Some ''60s'', DelayAfterDelete = None,
                 DelayAfterFailure = None, UnneededTime = Some ''10s''\<rparr>,
         MaxPodGracePeriod = Some 60,
         PodPriorityThreshold = Some (- 10)\<rparr>\<rparr>"

text \<open>An argument builder for runs of the handler: one fixed flag.\<close>

definition fixedArgs :: "ClusterAutoscaler \<Rightarrow> string list" where
  "fixedArgs ca = [''--logtostderr'']"

text \<open>
  Two stores for the resource of the tests: one that holds the deployment exactly as the
  builder makes it, and one whose deployment has drifted (another replica count, edited
  template labels, a restart policy in the pod spec, a resource version).
\<close>

definition synced_store :: memory_store where
  "synced_store =
     [objectKey (autoscalerDeployment fixedArgs NewClusterAutoscaler) \<mapsto>
        autoscalerDeployment fixedArgs NewClusterAutoscaler]"

definition drifted_deployment :: Deployment where
  "drifted_deployment =
     (let dep = autoscalerDeployment fixedArgs NewClusterAutoscaler in
      dep\<lparr>deployment_ObjectMeta := (deployment_ObjectMeta dep)\<lparr>ResourceVersion := ''7''\<rparr>,
          deployment_Spec :=
            \<lparr>Replicas = Some 3,
             Selector = Selector (deployment_Spec dep),
             Template =
               \<lparr>template_ObjectMeta = zero_ObjectMeta\<lparr>Labels := [''app'' \<mapsto> ''edited'']\<rparr>,
                template_Spec =
                  (template_Spec (Template (deployment_Spec dep)))\<lparr>RestartPolicy := ''Always''\<rparr>\<rparr>\<rparr>\<rparr>)"

definition drifted_store :: memory_store where
  "drifted_store = [objectKey drifted_deployment \<mapsto> drifted_deployment]"

definition isClusterAutoscaler :: "Object \<Rightarrow> bool" where
  "isClusterAutoscaler obj = (case obj of ClusterAutoscalerObject ca \<Rightarrow> True | _ \<Rightarrow> False)"

section \<open>The argument list\<close>

text \<open>
  The settings of the process.  The type \<open>Config\<close> of package \<open>clusterautoscaler\<close> is not
  among the sources; its fields are the ones the tests set, and the image the
  specification lists among the settings.
\<close>

record Config =
  ReleaseVersion :: string
  config_Name :: string
  config_Namespace :: string
  config_Image :: string
  CloudProvider :: string

text \<open>The verb \<open>%d\<close> on an \<open>int32\<close>: the signed value in decimal.\<close>

definition digit :: "nat \<Rightarrow> char" where
  "digit n = ''0123456789'' ! n"

fun formatUint :: "nat \<Rightarrow> string" where
  "formatUint n =
     (if n < 10 then [digit n] else formatUint (n div 10) @ [digit (n mod 10)])"

declare formatUint.simps [simp del]

definition formatInt :: "int \<Rightarrow> string" where
  "formatInt i =
     (if i < 0 then CHR ''-'' # formatUint (nat (- i)) else formatUint (nat i))"

definition format_d :: "int32 \<Rightarrow> string" where
  "format_d v = formatInt (sint v)"

definition format_range :: "ResourceRange \<Rightarrow> string" where
  "format_range r = format_d (Min r) @ '':'' @ format_d (Max r)"

definition format_gpu :: "GPULimit \<Rightarrow> string" where
  "format_gpu g = gpu_Type g @ '':'' @ format_d (gpu_Min g) @ '':'' @ format_d (gpu_Max g)"

definition optionalFlag :: "string \<Rightarrow> ('a \<Rightarrow> string) \<Rightarrow> 'a option \<Rightarrow> string list" where
  "optionalFlag name fmt field = (case field of None \<Rightarrow> [] | Some v \<Rightarrow> [name @ fmt v])"

definition repeatedFlag :: "string \<Rightarrow> ('a \<Rightarrow> string) \<Rightarrow> 'a list \<Rightarrow> string list" where
  "repeatedFlag name fmt vs = map (\<lambda>v. name @ fmt v) vs"

text \<open>
  Modelled from the spec: \<open>AutoscalerArgs(ca, cfg)\<close> and its helpers are not among the
  sources; only the test \<open>TestAutoscalerArgs\<close> is.  Following section 4.1 of the
  specification, every optional field of the configuration resource that is set gives one
  flag and an unset field gives none, and the namespace and cloud-provider flags always
  come from the settings.  The flag names and formats are those of the test; the names for
  the memory range and the GPU ranges, which the test does not check, are the ones the
  cluster autoscaler uses.  The order of the flags is the order of the test's list.
\<close>

definition ScaleDownArgs :: "ScaleDownConfig \<Rightarrow> string list" where
  "ScaleDownArgs sd =
     optionalFlag ''--scale-down-delay-after-add='' id (DelayAfterAdd sd)
     @ optionalFlag ''--scale-down-delay-after-delete='' id (DelayAfterDelete sd)
     @ optionalFlag ''--scale-down-delay-after-failure='' id (DelayAfterFailure sd)
     @ optionalFlag ''--scale-down-unneeded-time='' id (UnneededTime sd)"

definition ResourceArgs :: "ResourceLimits \<Rightarrow> string list" where
  "ResourceArgs rl =
     optionalFlag ''--cores-total='' format_range (Cores rl)
     @ optionalFlag ''--memory-total='' format_range (Memory rl)
     @ repeatedFlag ''--gpu-total='' format_gpu (GPUS rl)
     @ optionalFlag ''--max-nodes-total='' format_d (MaxNodesTotal rl)"

definition AutoscalerArgs :: "ClusterAutoscaler \<Rightarrow> Config \<Rightarrow> string list" where
  "AutoscalerArgs ca cfg =
     (let s = ca_Spec ca in
      (case spec_ScaleDown s of None \<Rightarrow> [] | Some sd \<Rightarrow> ScaleDownArgs sd)
      @ optionalFlag ''--expendable-pods-priority-cutoff='' format_d (PodPriorityThreshold s)
      @ optionalFlag ''--max-graceful-termination-sec='' format_d (MaxPodGracePeriod s)
      @ (case spec_ResourceLimits s of None \<Rightarrow> [] | Some rl \<Rightarrow> ResourceArgs rl)
      @ [''--namespace='' @ config_Namespace cfg,
         ''--cloud-provider='' @ CloudProvider cfg])"

text \<open>
  The helpers of the test file: \<open>strings.HasPrefix\<close>, \<open>includesStringWithPrefix\<close> and
  \<open>includeString\<close>.  \<open>flagsWithPrefix\<close> lists the arguments that start with a prefix, and
  \<open>setFields\<close> counts an optional field: one when it is set, zero when it is \<open>nil\<close>.
\<close>

definition HasPrefix :: "string \<Rightarrow> string \<Rightarrow> bool" where
  "HasPrefix s p = (length p \<le> length s \<and> take (length p) s = p)"

definition includesStringWithPrefix :: "string list \<Rightarrow> string \<Rightarrow> bool" where
  "includesStringWithPrefix list p = (\<exists>a \<in> set list. HasPrefix a p)"

definition includeString :: "string list \<Rightarrow> string \<Rightarrow> bool" where
  "includeString list item = (item \<in> set list)"

definition flagsWithPrefix :: "string \<Rightarrow> string list \<Rightarrow> string list" where
  "flagsWithPrefix p args = filter (\<lambda>a. HasPrefix a p) args"

definition setFields :: "'a option \<Rightarrow> nat" where
  "setFields field = (case field of None \<Rightarrow> 0 | Some v \<Rightarrow> 1)"

definition TestConfig :: Config where
  "TestConfig =
     \<lparr>ReleaseVersion = [], config_Name = [], config_Namespace = TestNamespace,
      config_Image = [], CloudProvider = TestCloudProvider\<rparr>"

section \<open>The availability predicate\<close>

text \<open>
  The reconciler of package \<open>clusterautoscaler\<close> reads through a client.  Neither is among
  the sources; the client is two lookups by namespace and name that return the object or
  an error, and \<open>NewFakeClient\<close> is the client of the tests, which holds the objects it
  is given and answers ``not found'' for every other key.
\<close>

record Client =
  get_ClusterAutoscaler :: "string \<times> string \<Rightarrow> go_error + ClusterAutoscaler"
  get_Deployment :: "string \<times> string \<Rightarrow> go_error + Deployment"

definition NewFakeClient :: "ClusterAutoscaler list \<Rightarrow> Deployment list \<Rightarrow> Client" where
  "NewFakeClient cas deps =
     \<lparr>get_ClusterAutoscaler = (\<lambda>key.
        case find (\<lambda>ca. (Namespace (ca_ObjectMeta ca), Name (ca_ObjectMeta ca)) = key) cas of
          Some ca \<Rightarrow> Inr ca
        | None \<Rightarrow> Inl (StatusError StatusReasonNotFound ''not found'')),
      get_Deployment = (\<lambda>key.
        case find (\<lambda>dep. objectKey dep = key) deps of
          Some dep \<Rightarrow> Inr dep
        | None \<Rightarrow> Inl (StatusError StatusReasonNotFound ''not found''))\<rparr>"

record Reconciler =
  client :: Client
  config :: Config

definition ReleaseVersionAnnotation :: string where
  "ReleaseVersionAnnotation = ''release.openshift.io/version''"

text \<open>
  Modelled from the spec: \<open>Reconciler.AvailableAndUpdated\<close> is not among the sources; only
  the test \<open>TestAvailableAndUpdated\<close> is.  Following section 4.2 of the specification, the
  workload is looked up in the configured namespace under the name derived from the
  configuration resource; a missing workload, a release-version annotation other than the
  configured release version and an available-replica count below one give \<open>false\<close> with
  no error, and a failed fetch that is not ``not found'' gives the error.  The lookup of
  the configuration resource by the configured name, and the answer \<open>true\<close> with no error
  when there is none, are those of the test (``Case 2: No CA in namespace, returns true,
  nil'').  The result is the pair the Go function returns.
\<close>

definition AvailableAndUpdated :: "Reconciler \<Rightarrow> bool \<times> go_error option" where
  "AvailableAndUpdated r =
     (let cfg = config r in
      case get_ClusterAutoscaler (client r) (config_Namespace cfg, config_Name cfg) of
        Inl err \<Rightarrow> if IsNotFound (Some err) then (True, None) else (False, Some err)
      | Inr ca \<Rightarrow>
          (case get_Deployment (client r)
                  (config_Namespace cfg, ''cluster-autoscaler-'' @ Name (ca_ObjectMeta ca)) of
             Inl err \<Rightarrow> if IsNotFound (Some err) then (False, None) else (False, Some err)
           | Inr dep \<Rightarrow>
               if Annotations (deployment_ObjectMeta dep) ReleaseVersionAnnotation
                    \<noteq> Some (ReleaseVersion cfg)
               then (False, None)
               else if sint (AvailableReplicas (deployment_Status dep)) < 1
               then (False, None)
               else (True, None)))"

text \<open>
  The fixtures of \<open>TestAvailableAndUpdated\<close>: \<open>dep1\<close> and \<open>dep2\<close> are
  \<open>test_deployment\<close> at the versions \<open>test-1\<close> and \<open>test-2\<close>, \<open>cfg1\<close>, \<open>cfg2\<close> and
  \<open>cfg3\<close> are \<open>test_config\<close> at a version and a name, and \<open>newFakeReconciler\<close> holds the
  configuration resource of the tests and one deployment.
\<close>

definition zero_PodSpec :: PodSpec where
  "zero_PodSpec =
     \<lparr>ServiceAccountName = [], Containers = [], Tolerations = [], RestartPolicy = [],
      DNSPolicy = [], SchedulerName = []\<rparr>"

definition zero_Deployment :: Deployment where
  "zero_Deployment =
     \<lparr>deployment_TypeMeta = \<lparr>APIVersion = [], Kind = []\<rparr>,
      deployment_ObjectMeta = zero_ObjectMeta,
      deployment_Spec =
        \<lparr>Replicas = None, Selector = None,
         Template = \<lparr>template_ObjectMeta = zero_ObjectMeta, template_Spec = zero_PodSpec\<rparr>\<rparr>,
      deployment_Status = zero_DeploymentStatus\<rparr>"

definition test_deployment :: "string \<Rightarrow> Deployment" where
  "test_deployment version =
     zero_Deployment
       \<lparr>deployment_ObjectMeta :=
          zero_ObjectMeta\<lparr>Name := ''cluster-autoscaler-test'', Namespace := TestNamespace,
            Annotations := [ReleaseVersionAnnotation \<mapsto> version], Generation := 1\<rparr>,
        deployment_Status :=
          \<lparr>ObservedGeneration = 1, status_Replicas = 1, UpdatedReplicas = 1,
           AvailableReplicas = 1\<rparr>\<rparr>"

definition test_config :: "string \<Rightarrow> string \<Rightarrow> Config" where
  "test_config version name =
     \<lparr>ReleaseVersion = version, config_Name = name, config_Namespace = TestNamespace,
      config_Image = [], CloudProvider = []\<rparr>"

definition newFakeReconciler :: "Deployment \<Rightarrow> Config \<Rightarrow> Reconciler" where
  "newFakeReconciler dep cfg =
     \<lparr>client = NewFakeClient [NewClusterAutoscaler] [dep], config = cfg\<rparr>"

section \<open>What the calls to the store do to the state\<close>

lemma updateAutoscaler_get_failed:
  assumes "get_op sdk (autoscalerDeployment caArgs ca) (store s) = ((Some e, dep1), w)"
  shows "updateAutoscaler sdk caArgs ca s =
           (Some (ErrorString (''failed to get autoscaler deployment: '' @ Error e)),
            s\<lparr>store := w, calls := calls s @ [GetCall (autoscalerDeployment caArgs ca)]\<rparr>)"
  using assms by (simp add: updateAutoscaler_def sdk_Get_def Let_def)

lemma updateAutoscaler_get_ok:
  assumes "get_op sdk (autoscalerDeployment caArgs ca) (store s) = ((None, dep1), w)"
    and "update_op sdk
           (dep1\<lparr>deployment_Spec := (deployment_Spec dep1)\<lparr>Template :=
              (Template (deployment_Spec dep1))\<lparr>template_Spec := autoscalerPodSpec caArgs ca\<rparr>\<rparr>\<rparr>) w
         = (err2, w2)"
  shows "updateAutoscaler sdk caArgs ca s =
           ((if err2 \<noteq> None
             then Some (Errorf ''failed to update autoscaler deployment: '' err2) else None),
            s\<lparr>store := w2,
              calls := calls s @
                [GetCall (autoscalerDeployment caArgs ca),
                 UpdateCall (dep1\<lparr>deployment_Spec := (deployment_Spec dep1)\<lparr>Template :=
                   (Template (deployment_Spec dep1))\<lparr>template_Spec := autoscalerPodSpec caArgs ca\<rparr>\<rparr>\<rparr>)]\<rparr>)"
  using assms by (simp add: updateAutoscaler_def sdk_Get_def sdk_Update_def Let_def)

lemma updateAutoscaler_calls_extend:
  "\<exists>rest. calls (snd (updateAutoscaler sdk caArgs ca s)) =
      calls s @ GetCall (autoscalerDeployment caArgs ca) # rest"
  by (auto simp add: updateAutoscaler_def sdk_Get_def sdk_Update_def Let_def split: prod.splits)

lemma Handle_unfold:
  assumes "create_op sdk (autoscalerDeployment caArgs ca) (store s) = (err, w)"
  shows "Handle sdk caArgs (event\<lparr>Object := ClusterAutoscalerObject ca, Deleted := False\<rparr>) s =
     (if err \<noteq> None \<and> \<not> IsAlreadyExists err
      then (Some (Errorf ''failed to create autoscaler deployment: '' err),
            s\<lparr>store := w, calls := calls s @ [CreateCall (autoscalerDeployment caArgs ca)]\<rparr>)
      else if IsAlreadyExists err
      then updateAutoscaler sdk caArgs ca
            (s\<lparr>store := w, calls := calls s @ [CreateCall (autoscalerDeployment caArgs ca)]\<rparr>)
      else (None, s\<lparr>store := w, calls := calls s @ [CreateCall (autoscalerDeployment caArgs ca)]\<rparr>))"
  using assms by (simp add: Handle_def sdk_Create_def Let_def)

lemma IsAlreadyExists_None: "\<not> IsAlreadyExists None"
  by (simp add: IsAlreadyExists_def)

section \<open>Properties of \<open>Handle\<close>\<close>

text \<open>
  Claim C6.  An event that carries a configuration resource and has the deletion flag set
  makes \<open>Handle\<close> return \<open>nil\<close> and leaves the state as it was: no call to the store is
  made, neither create nor get nor update.
\<close>

theorem Handle_ignores_deleted:
  "Handle sdk caArgs (event\<lparr>Object := ClusterAutoscalerObject ca, Deleted := True\<rparr>) s = (None, s)"
  by (simp add: Handle_def)

text \<open>
  Claim C10.  An event whose object is not a configuration resource makes \<open>Handle\<close>
  return \<open>nil\<close> and leaves the state as it was, whatever the deletion flag says: no call
  to the store is made.
\<close>

theorem Handle_ignores_other_objects:
  assumes "\<not> isClusterAutoscaler (Object event)"
  shows "Handle sdk caArgs event s = (None, s)"
  using assms by (cases "Object event") (simp_all add: Handle_def isClusterAutoscaler_def)

theorem Handle_ignores_other_objects_witness:
  "\<not> isClusterAutoscaler (DeploymentObject (autoscalerDeployment fixedArgs NewClusterAutoscaler))
   \<and> Handle memory_sdk fixedArgs
        \<lparr>Object = DeploymentObject (autoscalerDeployment fixedArgs NewClusterAutoscaler),
         Deleted = False\<rparr> (initial_state Map.empty)
      = (None, \<lparr>store = Map.empty, calls = [], operatorErrors = 0\<rparr>)"
  using Handle_ignores_other_objects
    [of "\<lparr>Object = DeploymentObject (autoscalerDeployment fixedArgs NewClusterAutoscaler),
          Deleted = False\<rparr>" memory_sdk fixedArgs "initial_state Map.empty"]
  by (simp add: isClusterAutoscaler_def initial_state_def)

text \<open>
  Claim C1.  For an event that carries a configuration resource and is not a deletion,
  \<open>Handle\<close> first calls create with the deployment the builder makes.  When that call
  fails with ``already exists'', \<open>Handle\<close> is the update path run in the state the create
  left; when it fails with any other error, \<open>Handle\<close> returns the error
  ``failed to create autoscaler deployment: ...'' and the create is the only call made;
  when it succeeds, \<open>Handle\<close> returns \<open>nil\<close>.
\<close>

theorem Handle_create_first:
  assumes "create_op sdk (autoscalerDeployment caArgs ca) (store s) = (err, w)"
  shows "(\<exists>rest. calls (snd (Handle sdk caArgs
              (event\<lparr>Object := ClusterAutoscalerObject ca, Deleted := False\<rparr>) s)) =
            calls s @ CreateCall (autoscalerDeployment caArgs ca) # rest)
     \<and> (IsAlreadyExists err \<longrightarrow>
          Handle sdk caArgs (event\<lparr>Object := ClusterAutoscalerObject ca, Deleted := False\<rparr>) s =
          updateAutoscaler sdk caArgs ca
            (s\<lparr>store := w, calls := calls s @ [CreateCall (autoscalerDeployment caArgs ca)]\<rparr>))
     \<and> (\<forall>e. err = Some e \<and> \<not> IsAlreadyExists err \<longrightarrow>
          Handle sdk caArgs (event\<lparr>Object := ClusterAutoscalerObject ca, Deleted := False\<rparr>) s =
          (Some (ErrorString (''failed to create autoscaler deployment: '' @ Error e)),
           s\<lparr>store := w, calls := calls s @ [CreateCall (autoscalerDeployment caArgs ca)]\<rparr>))
     \<and> (err = None \<longrightarrow>
          Handle sdk caArgs (event\<lparr>Object := ClusterAutoscalerObject ca, Deleted := False\<rparr>) s =
          (None, s\<lparr>store := w, calls := calls s @ [CreateCall (autoscalerDeployment caArgs ca)]\<rparr>))"
proof -
  let ?dep = "autoscalerDeployment caArgs ca"
  let ?s1 = "s\<lparr>store := w, calls := calls s @ [CreateCall ?dep]\<rparr>"
  let ?H = "Handle sdk caArgs (event\<lparr>Object := ClusterAutoscalerObject ca, Deleted := False\<rparr>) s"
  note H = Handle_unfold [OF assms, of event]
  have first: "\<exists>rest. calls (snd ?H) = calls s @ CreateCall ?dep # rest"
  proof (cases "IsAlreadyExists err")
    case True
    obtain rest where "calls (snd (updateAutoscaler sdk caArgs ca ?s1)) =
        calls ?s1 @ GetCall ?dep # rest"
      using updateAutoscaler_calls_extend by blast
    with True H show ?thesis by simp
  next
    case False
    with H show ?thesis by (cases err) simp_all
  qed
  have upd: "IsAlreadyExists err \<longrightarrow> ?H = updateAutoscaler sdk caArgs ca ?s1"
    using H by simp
  have other: "\<forall>e. err = Some e \<and> \<not> IsAlreadyExists err \<longrightarrow>
      ?H = (Some (ErrorString (''failed to create autoscaler deployment: '' @ Error e)), ?s1)"
    using H by auto
  have ok: "err = None \<longrightarrow> ?H = (None, ?s1)"
    using H by (simp add: IsAlreadyExists_None)
  from first upd other ok show ?thesis by blast
qed

theorem Handle_create_first_witness:
  "create_op memory_sdk (autoscalerDeployment fixedArgs NewClusterAutoscaler) synced_store =
     (Some (StatusError StatusReasonAlreadyExists ''already exists''), synced_store)
   \<and> Handle memory_sdk fixedArgs
        \<lparr>Object = ClusterAutoscalerObject NewClusterAutoscaler, Deleted = False\<rparr>
        (initial_state synced_store) =
      updateAutoscaler memory_sdk fixedArgs NewClusterAutoscaler
        \<lparr>store = synced_store,
         calls = [CreateCall (autoscalerDeployment fixedArgs NewClusterAutoscaler)],
         operatorErrors = 0\<rparr>
   \<and> Handle (unreachable_sdk (StatusError StatusReasonInternalError ''etcd down'')) fixedArgs
        \<lparr>Object = ClusterAutoscalerObject NewClusterAutoscaler, Deleted = False\<rparr>
        (initial_state synced_store) =
      (Some (ErrorString ''failed to create autoscaler deployment: etcd down''),
       \<lparr>store = synced_store,
        calls = [CreateCall (autoscalerDeployment fixedArgs NewClusterAutoscaler)],
        operatorErrors = 0\<rparr>)"
proof -
  have c1: "create_op memory_sdk (autoscalerDeployment fixedArgs NewClusterAutoscaler)
              (store (initial_state synced_store)) =
            (Some (StatusError StatusReasonAlreadyExists ''already exists''), synced_store)"
    by (simp add: memory_sdk_def synced_store_def initial_state_def)
  have c2: "create_op (unreachable_sdk (StatusError StatusReasonInternalError ''etcd down''))
              (autoscalerDeployment fixedArgs NewClusterAutoscaler)
              (store (initial_state synced_store)) =
            (Some (StatusError StatusReasonInternalError ''etcd down''), synced_store)"
    by (simp add: unreachable_sdk_def initial_state_def)
  show ?thesis
    using c1 Handle_create_first [OF c1, of "\<lparr>Object = ClusterAutoscalerObject NewClusterAutoscaler, Deleted = False\<rparr>"]
      Handle_create_first [OF c2, of "\<lparr>Object = ClusterAutoscalerObject NewClusterAutoscaler, Deleted = False\<rparr>"]
    by (simp add: IsAlreadyExists_def initial_state_def)
qed

section \<open>Properties of the update path\<close>

text \<open>
  Claim C5.  When the fetch of the existing deployment fails, \<open>updateAutoscaler\<close> returns
  the error ``failed to get autoscaler deployment: ...''; the fetch is the only call it
  makes, so no update is issued and the store is as the fetch left it.
\<close>

theorem updateAutoscaler_get_failure:
  assumes "get_op sdk (autoscalerDeployment caArgs ca) (store s) = ((Some e, dep1), w)"
  shows "updateAutoscaler sdk caArgs ca s =
           (Some (ErrorString (''failed to get autoscaler deployment: '' @ Error e)),
            s\<lparr>store := w, calls := calls s @ [GetCall (autoscalerDeployment caArgs ca)]\<rparr>)
         \<and> (\<forall>d. UpdateCall d \<notin> set (drop (length (calls s))
                  (calls (snd (updateAutoscaler sdk caArgs ca s)))))"
  using updateAutoscaler_get_failed [OF assms] by simp

theorem updateAutoscaler_get_failure_witness:
  "updateAutoscaler (unreachable_sdk (StatusError StatusReasonInternalError ''etcd down''))
      fixedArgs NewClusterAutoscaler (initial_state drifted_store) =
     (Some (ErrorString ''failed to get autoscaler deployment: etcd down''),
      \<lparr>store = drifted_store,
       calls = [GetCall (autoscalerDeployment fixedArgs NewClusterAutoscaler)],
       operatorErrors = 0\<rparr>)"
proof -
  have g: "get_op (unreachable_sdk (StatusError StatusReasonInternalError ''etcd down''))
             (autoscalerDeployment fixedArgs NewClusterAutoscaler)
             (store (initial_state drifted_store)) =
           ((Some (StatusError StatusReasonInternalError ''etcd down''),
             autoscalerDeployment fixedArgs NewClusterAutoscaler), drifted_store)"
    by (simp add: unreachable_sdk_def initial_state_def)
  show ?thesis
    using updateAutoscaler_get_failure [OF g] by (simp add: initial_state_def)
qed

text \<open>
  Claim C9.  Every object \<open>updateAutoscaler\<close> passes to update is the deployment it has
  just fetched with the pod spec of the pod template replaced by the pod spec the builder
  makes.  Type and object metadata, replica count, selector, the template's own metadata
  (labels and annotations) and the status are those of the fetched object, whatever they
  are.
\<close>

theorem update_writes_fetched_with_built_pod_spec:
  assumes "get_op sdk (autoscalerDeployment caArgs ca) (store s) = ((err, fetched), w)"
    and "UpdateCall written \<in> set (drop (length (calls s))
           (calls (snd (updateAutoscaler sdk caArgs ca s))))"
  shows "written = fetched\<lparr>deployment_Spec := (deployment_Spec fetched)\<lparr>Template :=
            (Template (deployment_Spec fetched))\<lparr>template_Spec := autoscalerPodSpec caArgs ca\<rparr>\<rparr>\<rparr>
     \<and> template_Spec (Template (deployment_Spec written)) = autoscalerPodSpec caArgs ca
     \<and> deployment_TypeMeta written = deployment_TypeMeta fetched
     \<and> deployment_ObjectMeta written = deployment_ObjectMeta fetched
     \<and> Replicas (deployment_Spec written) = Replicas (deployment_Spec fetched)
     \<and> Selector (deployment_Spec written) = Selector (deployment_Spec fetched)
     \<and> template_ObjectMeta (Template (deployment_Spec written)) =
         template_ObjectMeta (Template (deployment_Spec fetched))
     \<and> deployment_Status written = deployment_Status fetched"
proof -
  have w: "written = fetched\<lparr>deployment_Spec := (deployment_Spec fetched)\<lparr>Template :=
            (Template (deployment_Spec fetched))\<lparr>template_Spec := autoscalerPodSpec caArgs ca\<rparr>\<rparr>\<rparr>"
  proof (cases err)
    case None
    obtain err2 w2 where u: "update_op sdk
           (fetched\<lparr>deployment_Spec := (deployment_Spec fetched)\<lparr>Template :=
              (Template (deployment_Spec fetched))\<lparr>template_Spec := autoscalerPodSpec caArgs ca\<rparr>\<rparr>\<rparr>) w
         = (err2, w2)"
      by (cases "update_op sdk
           (fetched\<lparr>deployment_Spec := (deployment_Spec fetched)\<lparr>Template :=
              (Template (deployment_Spec fetched))\<lparr>template_Spec := autoscalerPodSpec caArgs ca\<rparr>\<rparr>\<rparr>) w")
    from assms(1) None have g: "get_op sdk (autoscalerDeployment caArgs ca) (store s) = ((None, fetched), w)"
      by simp
    from assms(2) updateAutoscaler_get_ok [OF g u] show ?thesis by simp
  next
    case (Some e)
    with assms(1) have g: "get_op sdk (autoscalerDeployment caArgs ca) (store s) = ((Some e, fetched), w)"
      by simp
    from assms(2) updateAutoscaler_get_failed [OF g] show ?thesis by simp
  qed
  then show ?thesis by simp
qed

theorem update_writes_fetched_with_built_pod_spec_witness:
  "get_op memory_sdk (autoscalerDeployment fixedArgs NewClusterAutoscaler) drifted_store =
     ((None, drifted_deployment), drifted_store)
   \<and> calls (snd (updateAutoscaler memory_sdk fixedArgs NewClusterAutoscaler
        (initial_state drifted_store))) =
     [GetCall (autoscalerDeployment fixedArgs NewClusterAutoscaler),
      UpdateCall (drifted_deployment\<lparr>deployment_Spec := (deployment_Spec drifted_deployment)\<lparr>Template :=
            (Template (deployment_Spec drifted_deployment))\<lparr>template_Spec :=
               autoscalerPodSpec fixedArgs NewClusterAutoscaler\<rparr>\<rparr>\<rparr>)]
   \<and> Replicas (deployment_Spec (drifted_deployment\<lparr>deployment_Spec := (deployment_Spec drifted_deployment)\<lparr>Template :=
            (Template (deployment_Spec drifted_deployment))\<lparr>template_Spec :=
               autoscalerPodSpec fixedArgs NewClusterAutoscaler\<rparr>\<rparr>\<rparr>)) = Some 3
   \<and> Labels (template_ObjectMeta (Template (deployment_Spec (drifted_deployment\<lparr>deployment_Spec := (deployment_Spec drifted_deployment)\<lparr>Template :=
            (Template (deployment_Spec drifted_deployment))\<lparr>template_Spec :=
               autoscalerPodSpec fixedArgs NewClusterAutoscaler\<rparr>\<rparr>\<rparr>)))) ''app'' = Some ''edited''"
proof -
  let ?dep = "autoscalerDeployment fixedArgs NewClusterAutoscaler"
  let ?w = "drifted_deployment\<lparr>deployment_Spec := (deployment_Spec drifted_deployment)\<lparr>Template :=
            (Template (deployment_Spec drifted_deployment))\<lparr>template_Spec :=
               autoscalerPodSpec fixedArgs NewClusterAutoscaler\<rparr>\<rparr>\<rparr>"
  have key: "objectKey drifted_deployment = objectKey ?dep"
    by (simp add: objectKey_def drifted_deployment_def Let_def autoscalerDeployment_def addOwnerRefToObject_def)
  have g: "get_op memory_sdk ?dep (store (initial_state drifted_store)) =
             ((None, drifted_deployment), drifted_store)"
    by (simp add: memory_sdk_def drifted_store_def initial_state_def key)
  have u: "update_op memory_sdk ?w drifted_store = (None, drifted_store(objectKey ?dep \<mapsto> ?w))"
    using key by (simp add: memory_sdk_def drifted_store_def objectKey_def)
  have c: "calls (snd (updateAutoscaler memory_sdk fixedArgs NewClusterAutoscaler
        (initial_state drifted_store))) = [GetCall ?dep, UpdateCall ?w]"
    using updateAutoscaler_get_ok [OF g u] by (simp add: initial_state_def)
  have m: "UpdateCall ?w \<in> set (drop (length (calls (initial_state drifted_store)))
           (calls (snd (updateAutoscaler memory_sdk fixedArgs NewClusterAutoscaler
              (initial_state drifted_store)))))"
    by (simp add: c) (simp add: initial_state_def)
  have r: "Replicas (deployment_Spec drifted_deployment) = Some 3"
    by (simp add: drifted_deployment_def Let_def)
  have l: "Labels (template_ObjectMeta (Template (deployment_Spec drifted_deployment))) ''app'' = Some ''edited''"
    by (simp add: drifted_deployment_def Let_def)
  from update_writes_fetched_with_built_pod_spec [OF g m] g c r l
  show ?thesis by (simp add: initial_state_def)
qed

section \<open>The comparison in the update path\<close>

lemma built_pod_spec_in_deployment:
  "template_Spec (Template (deployment_Spec (autoscalerDeployment caArgs ca))) =
     autoscalerPodSpec caArgs ca"
  by (simp add: autoscalerDeployment_def addOwnerRefToObject_def Let_def)

lemma rewrite_built_deployment:
  "(autoscalerDeployment caArgs ca)\<lparr>deployment_Spec :=
      (deployment_Spec (autoscalerDeployment caArgs ca))\<lparr>Template :=
        (Template (deployment_Spec (autoscalerDeployment caArgs ca)))\<lparr>template_Spec :=
           autoscalerPodSpec caArgs ca\<rparr>\<rparr>\<rparr>
   = autoscalerDeployment caArgs ca"
  by (simp add: autoscalerDeployment_def addOwnerRefToObject_def Let_def)

lemma updateAutoscaler_updates_whenever_fetched:
  assumes "get_op sdk (autoscalerDeployment caArgs ca) (store s) = ((None, fetched), w)"
  shows "UpdateCall (fetched\<lparr>deployment_Spec := (deployment_Spec fetched)\<lparr>Template :=
            (Template (deployment_Spec fetched))\<lparr>template_Spec := autoscalerPodSpec caArgs ca\<rparr>\<rparr>\<rparr>)
         \<in> set (calls (snd (updateAutoscaler sdk caArgs ca s)))"
proof -
  obtain err2 w2 where u: "update_op sdk
      (fetched\<lparr>deployment_Spec := (deployment_Spec fetched)\<lparr>Template :=
         (Template (deployment_Spec fetched))\<lparr>template_Spec := autoscalerPodSpec caArgs ca\<rparr>\<rparr>\<rparr>) w
      = (err2, w2)"
    by (metis surj_pair)
  from updateAutoscaler_get_ok [OF assms u] show ?thesis by simp
qed

text \<open>
  Claim C2.  The claim fails on the code.  \<open>updateAutoscaler\<close> compares the fetched pod
  spec, a \<open>corev1.PodSpec\<close>, with the built one, a \<open>*corev1.PodSpec\<close>; values of distinct
  types are never deeply equal, so the comparison is false for every pair and the update
  is issued whenever the fetch succeeds (\<open>updateAutoscaler_updates_whenever_fetched\<close>).  Reconciling the resource of the tests twice on
  an empty in-memory store: the first pass creates the deployment; the second finds the
  stored pod spec equal to the built one and still calls update.
\<close>

theorem Handle_twice_updates_unchanged_deployment:
  "(\<forall>a b. \<not> DeepEqual (PodSpecValue a) (PodSpecPointer b))
   \<and> Handle memory_sdk fixedArgs
     \<lparr>Object = ClusterAutoscalerObject NewClusterAutoscaler, Deleted = False\<rparr>
     (initial_state Map.empty) =
   (None, \<lparr>store = synced_store,
           calls = [CreateCall (autoscalerDeployment fixedArgs NewClusterAutoscaler)],
           operatorErrors = 0\<rparr>)
   \<and> template_Spec (Template (deployment_Spec (the (synced_store
         (objectKey (autoscalerDeployment fixedArgs NewClusterAutoscaler)))))) =
       autoscalerPodSpec fixedArgs NewClusterAutoscaler
   \<and> Handle memory_sdk fixedArgs
     \<lparr>Object = ClusterAutoscalerObject NewClusterAutoscaler, Deleted = False\<rparr>
     \<lparr>store = synced_store,
      calls = [CreateCall (autoscalerDeployment fixedArgs NewClusterAutoscaler)],
      operatorErrors = 0\<rparr> =
   (None, \<lparr>store = synced_store,
           calls = [CreateCall (autoscalerDeployment fixedArgs NewClusterAutoscaler),
                    CreateCall (autoscalerDeployment fixedArgs NewClusterAutoscaler),
                    GetCall (autoscalerDeployment fixedArgs NewClusterAutoscaler),
                    UpdateCall (autoscalerDeployment fixedArgs NewClusterAutoscaler)],
           operatorErrors = 0\<rparr>)"
proof -
  let ?dep = "autoscalerDeployment fixedArgs NewClusterAutoscaler"
  let ?ev = "\<lparr>Object = ClusterAutoscalerObject NewClusterAutoscaler, Deleted = False\<rparr>"
  let ?s1 = "\<lparr>store = synced_store, calls = [CreateCall ?dep], operatorErrors = 0\<rparr>"
  have never: "\<forall>a b. \<not> DeepEqual (PodSpecValue a) (PodSpecPointer b)"
    by simp
  have c1: "create_op memory_sdk ?dep (store (initial_state Map.empty)) = (None, synced_store)"
    by (simp add: memory_sdk_def synced_store_def initial_state_def)
  have first: "Handle memory_sdk fixedArgs ?ev (initial_state Map.empty) = (None, ?s1)"
    using Handle_unfold [OF c1, of ?ev] by (simp add: IsAlreadyExists_None initial_state_def)
  have stored: "template_Spec (Template (deployment_Spec (the (synced_store (objectKey ?dep))))) =
      autoscalerPodSpec fixedArgs NewClusterAutoscaler"
    by (simp add: synced_store_def built_pod_spec_in_deployment)
  have c2: "create_op memory_sdk ?dep (store ?s1) =
      (Some (StatusError StatusReasonAlreadyExists ''already exists''), synced_store)"
    by (simp add: memory_sdk_def synced_store_def)
  have g: "get_op memory_sdk ?dep
      (store (?s1\<lparr>store := synced_store, calls := calls ?s1 @ [CreateCall ?dep]\<rparr>)) =
      ((None, ?dep), synced_store)"
    by (simp add: memory_sdk_def synced_store_def)
  have u: "update_op memory_sdk
      (?dep\<lparr>deployment_Spec := (deployment_Spec ?dep)\<lparr>Template :=
         (Template (deployment_Spec ?dep))\<lparr>template_Spec :=
            autoscalerPodSpec fixedArgs NewClusterAutoscaler\<rparr>\<rparr>\<rparr>) synced_store =
      (None, synced_store)"
    unfolding rewrite_built_deployment by (simp add: memory_sdk_def synced_store_def)
  have second: "Handle memory_sdk fixedArgs ?ev ?s1 =
      (None, \<lparr>store = synced_store,
              calls = [CreateCall ?dep, CreateCall ?dep, GetCall ?dep, UpdateCall ?dep],
              operatorErrors = 0\<rparr>)"
    using Handle_unfold [OF c2, of ?ev] updateAutoscaler_get_ok [OF g u]
    by (simp add: IsAlreadyExists_def rewrite_built_deployment)
  from never first stored second show ?thesis by blast
qed

section \<open>The error counter\<close>

lemma updateAutoscaler_operatorErrors:
  "operatorErrors (snd (updateAutoscaler sdk caArgs ca s)) = operatorErrors s"
proof -
  obtain err dep1 w where g:
    "get_op sdk (autoscalerDeployment caArgs ca) (store s) = ((err, dep1), w)"
    by (metis surj_pair)
  show ?thesis
  proof (cases err)
    case None
    obtain err2 w2 where u: "update_op sdk
        (dep1\<lparr>deployment_Spec := (deployment_Spec dep1)\<lparr>Template :=
           (Template (deployment_Spec dep1))\<lparr>template_Spec := autoscalerPodSpec caArgs ca\<rparr>\<rparr>\<rparr>) w
        = (err2, w2)"
      by (metis surj_pair)
    from g None have "get_op sdk (autoscalerDeployment caArgs ca) (store s) = ((None, dep1), w)"
      by simp
    from updateAutoscaler_get_ok [OF this u] show ?thesis by simp
  next
    case (Some e)
    with g have "get_op sdk (autoscalerDeployment caArgs ca) (store s) = ((Some e, dep1), w)"
      by simp
    from updateAutoscaler_get_failed [OF this] show ?thesis by simp
  qed
qed

lemma Handle_operatorErrors:
  "operatorErrors (snd (Handle sdk caArgs event s)) = operatorErrors s"
proof (cases "Object event")
  case (ClusterAutoscalerObject ca)
  obtain err w where c: "create_op sdk (autoscalerDeployment caArgs ca) (store s) = (err, w)"
    by (metis surj_pair)
  show ?thesis
  proof (cases "Deleted event")
    case True
    with ClusterAutoscalerObject show ?thesis by (simp add: Handle_def)
  next
    case False
    with ClusterAutoscalerObject
    have e: "event\<lparr>Object := ClusterAutoscalerObject ca, Deleted := False\<rparr> = event"
      by simp
    from Handle_unfold [OF c, of event] show ?thesis
      unfolding e by (simp add: updateAutoscaler_operatorErrors)
  qed
qed (simp_all add: Handle_def)

text \<open>
  Claim C7.  The claim fails on the code.  No path of \<open>Handle\<close> changes the counter
  \<open>operatorErrors\<close>: its value after the call is its value before, also when \<open>Handle\<close>
  returns an error.  With a store that cannot be reached, \<open>Handle\<close> returns
  ``failed to create autoscaler deployment: etcd down'' and the counter stays at zero.
\<close>

theorem Handle_never_counts_errors:
  "operatorErrors (snd (Handle sdk caArgs event s)) = operatorErrors s
   \<and> Handle (unreachable_sdk (StatusError StatusReasonInternalError ''etcd down'')) fixedArgs
        \<lparr>Object = ClusterAutoscalerObject NewClusterAutoscaler, Deleted = False\<rparr>
        (initial_state Map.empty) =
      (Some (ErrorString ''failed to create autoscaler deployment: etcd down''),
       \<lparr>store = Map.empty,
        calls = [CreateCall (autoscalerDeployment fixedArgs NewClusterAutoscaler)],
        operatorErrors = 0\<rparr>)"
proof -
  have c: "create_op (unreachable_sdk (StatusError StatusReasonInternalError ''etcd down''))
              (autoscalerDeployment fixedArgs NewClusterAutoscaler)
              (store (initial_state Map.empty)) =
            (Some (StatusError StatusReasonInternalError ''etcd down''), Map.empty)"
    by (simp add: unreachable_sdk_def initial_state_def)
  show ?thesis
    using Handle_unfold [OF c, of "\<lparr>Object = ClusterAutoscalerObject NewClusterAutoscaler, Deleted = False\<rparr>"]
    by (simp add: Handle_operatorErrors IsAlreadyExists_def initial_state_def)
qed

section \<open>Properties of the argument list\<close>

lemma HasPrefix_prefix: "HasPrefix s p = prefix p s"
  unfolding HasPrefix_def prefix_def
  by (metis append_eq_conv_conj append_take_drop_id length_append le_add1)

lemma flagsWithPrefix_append:
  "flagsWithPrefix p (xs @ ys) = flagsWithPrefix p xs @ flagsWithPrefix p ys"
  by (simp add: flagsWithPrefix_def)

lemma flagsWithPrefix_Nil: "flagsWithPrefix p [] = []"
  by (simp add: flagsWithPrefix_def)

lemma flagsWithPrefix_Cons:
  "flagsWithPrefix p (a # xs) =
     (if prefix p a then a # flagsWithPrefix p xs else flagsWithPrefix p xs)"
  by (simp add: flagsWithPrefix_def HasPrefix_prefix)

lemma flagsWithPrefix_optionalFlag_same:
  "flagsWithPrefix name (optionalFlag name fmt field) = optionalFlag name fmt field"
  by (simp add: optionalFlag_def flagsWithPrefix_Cons flagsWithPrefix_Nil split: option.splits)

lemma flagsWithPrefix_optionalFlag_other:
  assumes "\<not> prefix p name" and "\<not> prefix name p"
  shows "flagsWithPrefix p (optionalFlag name fmt field) = []"
  using assms
  by (auto simp add: optionalFlag_def prefix_append flagsWithPrefix_Cons flagsWithPrefix_Nil
      split: option.splits)

lemma flagsWithPrefix_repeatedFlag_same:
  "flagsWithPrefix name (repeatedFlag name fmt vs) = repeatedFlag name fmt vs"
  unfolding repeatedFlag_def
  by (induction vs) (simp_all add: flagsWithPrefix_Cons flagsWithPrefix_Nil)

lemma flagsWithPrefix_repeatedFlag_other:
  assumes "\<not> prefix p name" and "\<not> prefix name p"
  shows "flagsWithPrefix p (repeatedFlag name fmt vs) = []"
  unfolding repeatedFlag_def using assms
  by (induction vs) (auto simp add: prefix_append flagsWithPrefix_Cons flagsWithPrefix_Nil)

lemmas flag_simps =
  flagsWithPrefix_append flagsWithPrefix_Nil flagsWithPrefix_Cons
  flagsWithPrefix_optionalFlag_same flagsWithPrefix_optionalFlag_other
  flagsWithPrefix_repeatedFlag_same flagsWithPrefix_repeatedFlag_other
  AutoscalerArgs_def ScaleDownArgs_def ResourceArgs_def Let_def

lemma optionalFlag_cases:
  "optionalFlag name fmt field = (case field of None \<Rightarrow> [] | Some v \<Rightarrow> [name @ fmt v])"
  by (simp add: optionalFlag_def)

lemma flags_delay_after_add:
  "flagsWithPrefix ''--scale-down-delay-after-add='' (AutoscalerArgs ca cfg) =
     (case spec_ScaleDown (ca_Spec ca) of None \<Rightarrow> []
      | Some sd \<Rightarrow> optionalFlag ''--scale-down-delay-after-add='' id (DelayAfterAdd sd))"
  by (simp add: flag_simps split: option.splits)

lemma flags_delay_after_delete:
  "flagsWithPrefix ''--scale-down-delay-after-delete='' (AutoscalerArgs ca cfg) =
     (case spec_ScaleDown (ca_Spec ca) of None \<Rightarrow> []
      | Some sd \<Rightarrow> optionalFlag ''--scale-down-delay-after-delete='' id (DelayAfterDelete sd))"
  by (simp add: flag_simps split: option.splits)

lemma flags_delay_after_failure:
  "flagsWithPrefix ''--scale-down-delay-after-failure='' (AutoscalerArgs ca cfg) =
     (case spec_ScaleDown (ca_Spec ca) of None \<Rightarrow> []
      | Some sd \<Rightarrow> optionalFlag ''--scale-down-delay-after-failure='' id (DelayAfterFailure sd))"
  by (simp add: flag_simps split: option.splits)

lemma flags_unneeded_time:
  "flagsWithPrefix ''--scale-down-unneeded-time='' (AutoscalerArgs ca cfg) =
     (case spec_ScaleDown (ca_Spec ca) of None \<Rightarrow> []
      | Some sd \<Rightarrow> optionalFlag ''--scale-down-unneeded-time='' id (UnneededTime sd))"
  by (simp add: flag_simps split: option.splits)

lemma flags_priority_cutoff:
  "flagsWithPrefix ''--expendable-pods-priority-cutoff='' (AutoscalerArgs ca cfg) =
     optionalFlag ''--expendable-pods-priority-cutoff='' format_d (PodPriorityThreshold (ca_Spec ca))"
  by (simp add: flag_simps split: option.splits)

lemma flags_graceful_termination:
  "flagsWithPrefix ''--max-graceful-termination-sec='' (AutoscalerArgs ca cfg) =
     optionalFlag ''--max-graceful-termination-sec='' format_d (MaxPodGracePeriod (ca_Spec ca))"
  by (simp add: flag_simps split: option.splits)

lemma flags_cores:
  "flagsWithPrefix ''--cores-total='' (AutoscalerArgs ca cfg) =
     (case spec_ResourceLimits (ca_Spec ca) of None \<Rightarrow> []
      | Some rl \<Rightarrow> optionalFlag ''--cores-total='' format_range (Cores rl))"
  by (simp add: flag_simps split: option.splits)

lemma flags_memory:
  "flagsWithPrefix ''--memory-total='' (AutoscalerArgs ca cfg) =
     (case spec_ResourceLimits (ca_Spec ca) of None \<Rightarrow> []
      | Some rl \<Rightarrow> optionalFlag ''--memory-total='' format_range (Memory rl))"
  by (simp add: flag_simps split: option.splits)

lemma flags_gpu:
  "flagsWithPrefix ''--gpu-total='' (AutoscalerArgs ca cfg) =
     (case spec_ResourceLimits (ca_Spec ca) of None \<Rightarrow> []
      | Some rl \<Rightarrow> repeatedFlag ''--gpu-total='' format_gpu (GPUS rl))"
  by (simp add: flag_simps split: option.splits)

lemma flags_max_nodes:
  "flagsWithPrefix ''--max-nodes-total='' (AutoscalerArgs ca cfg) =
     (case spec_ResourceLimits (ca_Spec ca) of None \<Rightarrow> []
      | Some rl \<Rightarrow> optionalFlag ''--max-nodes-total='' format_d (MaxNodesTotal rl))"
  by (simp add: flag_simps split: option.splits)

lemma length_optionalFlag: "length (optionalFlag name fmt field) = setFields field"
  by (simp add: optionalFlag_def setFields_def split: option.splits)

lemma length_repeatedFlag: "length (repeatedFlag name fmt vs) = length vs"
  by (simp add: repeatedFlag_def)

lemma length_ScaleDownArgs:
  "length (ScaleDownArgs sd) =
     setFields (DelayAfterAdd sd) + setFields (DelayAfterDelete sd)
     + setFields (DelayAfterFailure sd) + setFields (UnneededTime sd)"
  by (simp add: ScaleDownArgs_def length_optionalFlag)

lemma length_ResourceArgs:
  "length (ResourceArgs rl) =
     setFields (Cores rl) + setFields (Memory rl) + length (GPUS rl)
     + setFields (MaxNodesTotal rl)"
  by (simp add: ResourceArgs_def length_optionalFlag length_repeatedFlag)

lemma length_AutoscalerArgs:
  "length (AutoscalerArgs ca cfg) =
     (case spec_ScaleDown (ca_Spec ca) of None \<Rightarrow> 0
      | Some sd \<Rightarrow> setFields (DelayAfterAdd sd) + setFields (DelayAfterDelete sd)
          + setFields (DelayAfterFailure sd) + setFields (UnneededTime sd))
     + setFields (PodPriorityThreshold (ca_Spec ca))
     + setFields (MaxPodGracePeriod (ca_Spec ca))
     + (case spec_ResourceLimits (ca_Spec ca) of None \<Rightarrow> 0
        | Some rl \<Rightarrow> setFields (Cores rl) + setFields (Memory rl) + length (GPUS rl)
            + setFields (MaxNodesTotal rl))
     + 2"
  by (simp add: AutoscalerArgs_def Let_def length_optionalFlag length_ScaleDownArgs
      length_ResourceArgs split: option.splits)

lemma TestAutoscalerArgs:
  "AutoscalerArgs NewClusterAutoscaler TestConfig =
   [''--scale-down-delay-after-add=60s'',
    ''--scale-down-unneeded-time=10s'',
    ''--expendable-pods-priority-cutoff=-10'',
    ''--max-graceful-termination-sec=60'',
    ''--cores-total=16:32'',
    ''--memory-total=32:64'',
    ''--gpu-total=nvidia.com/gpu:4:8'',
    ''--max-nodes-total=100'',
    ''--namespace=test'',
    ''--cloud-provider=testProvider'']"
  by (simp add: AutoscalerArgs_def ScaleDownArgs_def ResourceArgs_def NewClusterAutoscaler_def
      optionalFlag_def repeatedFlag_def format_range_def format_gpu_def format_d_def
      formatInt_def formatUint.simps digit_def TestNamespace_def TestCloudProvider_def
      NvidiaGPU_def TestConfig_def)

text \<open>The assertions of \<open>TestAutoscalerArgs\<close> hold of this argument list.\<close>

lemma TestAutoscalerArgs_passes:
  "(\<forall>e \<in> set [''--scale-down-delay-after-add=60s'', ''--scale-down-unneeded-time=10s'',
        ''--expendable-pods-priority-cutoff=-10'', ''--max-graceful-termination-sec=60'',
        ''--cores-total=16:32'', ''--max-nodes-total=100'', ''--namespace=test'',
        ''--cloud-provider=testProvider''].
      includeString (AutoscalerArgs NewClusterAutoscaler TestConfig) e)
   \<and> (\<forall>e \<in> set [''--scale-down-delay-after-delete'', ''--scale-down-delay-after-failure''].
      \<not> includesStringWithPrefix (AutoscalerArgs NewClusterAutoscaler TestConfig) e)"
  unfolding TestAutoscalerArgs by (simp add: includeString_def includesStringWithPrefix_def HasPrefix_def)

text \<open>
  Claim C4.  For every configuration resource and settings, the arguments that start
  with the flag of an optional field are: none when the field is unset (or the block that
  holds it is), and exactly the one flag with the formatted value when it is set.  This
  holds for the scale-down delay after add and the unneeded time, the pod-priority
  threshold, the graceful-termination seconds, the cores and memory ranges and the node
  ceiling; every GPU range gives one flag.  The argument list has one entry for each field
  that is set, one for each GPU range, and the two flags of the settings.
\<close>

theorem AutoscalerArgs_flag_iff_field_set:
  "flagsWithPrefix ''--scale-down-delay-after-add='' (AutoscalerArgs ca cfg) =
     (case spec_ScaleDown (ca_Spec ca) of None \<Rightarrow> []
      | Some sd \<Rightarrow> (case DelayAfterAdd sd of None \<Rightarrow> []
          | Some v \<Rightarrow> [''--scale-down-delay-after-add='' @ v]))
   \<and> flagsWithPrefix ''--scale-down-unneeded-time='' (AutoscalerArgs ca cfg) =
     (case spec_ScaleDown (ca_Spec ca) of None \<Rightarrow> []
      | Some sd \<Rightarrow> (case UnneededTime sd of None \<Rightarrow> []
          | Some v \<Rightarrow> [''--scale-down-unneeded-time='' @ v]))
   \<and> flagsWithPrefix ''--expendable-pods-priority-cutoff='' (AutoscalerArgs ca cfg) =
     (case PodPriorityThreshold (ca_Spec ca) of None \<Rightarrow> []
      | Some v \<Rightarrow> [''--expendable-pods-priority-cutoff='' @ format_d v])
   \<and> flagsWithPrefix ''--max-graceful-termination-sec='' (AutoscalerArgs ca cfg) =
     (case MaxPodGracePeriod (ca_Spec ca) of None \<Rightarrow> []
      | Some v \<Rightarrow> [''--max-graceful-termination-sec='' @ format_d v])
   \<and> flagsWithPrefix ''--cores-total='' (AutoscalerArgs ca cfg) =
     (case spec_ResourceLimits (ca_Spec ca) of None \<Rightarrow> []
      | Some rl \<Rightarrow> (case Cores rl of None \<Rightarrow> []
          | Some r \<Rightarrow> [''--cores-total='' @ format_d (Min r) @ '':'' @ format_d (Max r)]))
   \<and> flagsWithPrefix ''--memory-total='' (AutoscalerArgs ca cfg) =
     (case spec_ResourceLimits (ca_Spec ca) of None \<Rightarrow> []
      | Some rl \<Rightarrow> (case Memory rl of None \<Rightarrow> []
          | Some r \<Rightarrow> [''--memory-total='' @ format_d (Min r) @ '':'' @ format_d (Max r)]))
   \<and> flagsWithPrefix ''--gpu-total='' (AutoscalerArgs ca cfg) =
     (case spec_ResourceLimits (ca_Spec ca) of None \<Rightarrow> []
      | Some rl \<Rightarrow> map (\<lambda>g. ''--gpu-total='' @ gpu_Type g @ '':'' @ format_d (gpu_Min g)
                                  @ '':'' @ format_d (gpu_Max g)) (GPUS rl))
   \<and> flagsWithPrefix ''--max-nodes-total='' (AutoscalerArgs ca cfg) =
     (case spec_ResourceLimits (ca_Spec ca) of None \<Rightarrow> []
      | Some rl \<Rightarrow> (case MaxNodesTotal rl of None \<Rightarrow> []
          | Some v \<Rightarrow> [''--max-nodes-total='' @ format_d v]))
   \<and> length (AutoscalerArgs ca cfg) =
     (case spec_ScaleDown (ca_Spec ca) of None \<Rightarrow> 0
      | Some sd \<Rightarrow> setFields (DelayAfterAdd sd) + setFields (DelayAfterDelete sd)
          + setFields (DelayAfterFailure sd) + setFields (UnneededTime sd))
     + setFields (PodPriorityThreshold (ca_Spec ca))
     + setFields (MaxPodGracePeriod (ca_Spec ca))
     + (case spec_ResourceLimits (ca_Spec ca) of None \<Rightarrow> 0
        | Some rl \<Rightarrow> setFields (Cores rl) + setFields (Memory rl) + length (GPUS rl)
            + setFields (MaxNodesTotal rl))
     + 2"
  unfolding flags_delay_after_add flags_unneeded_time flags_priority_cutoff
    flags_graceful_termination flags_cores flags_memory flags_gpu flags_max_nodes
    length_AutoscalerArgs optionalFlag_cases repeatedFlag_def format_range_def format_gpu_def
  by (simp split: option.splits)

theorem AutoscalerArgs_flag_iff_field_set_witness:
  "flagsWithPrefix ''--scale-down-delay-after-add='' (AutoscalerArgs NewClusterAutoscaler TestConfig)
     = [''--scale-down-delay-after-add=60s'']
   \<and> flagsWithPrefix ''--scale-down-unneeded-time='' (AutoscalerArgs NewClusterAutoscaler TestConfig)
     = [''--scale-down-unneeded-time=10s'']
   \<and> flagsWithPrefix ''--expendable-pods-priority-cutoff='' (AutoscalerArgs NewClusterAutoscaler TestConfig)
     = [''--expendable-pods-priority-cutoff=-10'']
   \<and> flagsWithPrefix ''--max-graceful-termination-sec='' (AutoscalerArgs NewClusterAutoscaler TestConfig)
     = [''--max-graceful-termination-sec=60'']
   \<and> flagsWithPrefix ''--cores-total='' (AutoscalerArgs NewClusterAutoscaler TestConfig)
     = [''--cores-total=16:32'']
   \<and> flagsWithPrefix ''--max-nodes-total='' (AutoscalerArgs NewClusterAutoscaler TestConfig)
     = [''--max-nodes-total=100'']
   \<and> flagsWithPrefix ''--max-nodes-total=''
       (AutoscalerArgs (NewClusterAutoscaler\<lparr>ca_Spec :=
          (ca_Spec NewClusterAutoscaler)\<lparr>spec_ResourceLimits := None\<rparr>\<rparr>) TestConfig) = []
   \<and> length (AutoscalerArgs NewClusterAutoscaler TestConfig) = 10"
  using AutoscalerArgs_flag_iff_field_set [of NewClusterAutoscaler TestConfig]
    AutoscalerArgs_flag_iff_field_set
      [of "NewClusterAutoscaler\<lparr>ca_Spec :=
          (ca_Spec NewClusterAutoscaler)\<lparr>spec_ResourceLimits := None\<rparr>\<rparr>" TestConfig]
  by (simp add: NewClusterAutoscaler_def setFields_def format_d_def formatInt_def
      formatUint.simps digit_def)

section \<open>Properties of the availability predicate\<close>

lemmas test_defs =
  AvailableAndUpdated_def newFakeReconciler_def NewFakeClient_def test_config_def
  test_deployment_def zero_Deployment_def NewClusterAutoscaler_def TestNamespace_def
  objectKey_def zero_ObjectMeta_def zero_DeploymentStatus_def IsNotFound_def
  ReleaseVersionAnnotation_def Let_def

text \<open>The five cases of \<open>TestAvailableAndUpdated\<close>, with the results the test expects.\<close>

lemma TestAvailableAndUpdated_case0:
  "AvailableAndUpdated (newFakeReconciler (test_deployment ''test-1'') (test_config ''test-1'' ''test''))
   = (True, None)"
  by (simp add: test_defs)

lemma TestAvailableAndUpdated_case1:
  "AvailableAndUpdated (newFakeReconciler (test_deployment ''test-1'') (test_config ''test-2'' ''test''))
   = (False, None)"
  by (simp add: test_defs)

lemma TestAvailableAndUpdated_case2:
  "AvailableAndUpdated (newFakeReconciler (test_deployment ''test-1'') (test_config ''test-2'' ''test2''))
   = (True, None)"
  by (simp add: test_defs)

lemma TestAvailableAndUpdated_case3:
  "AvailableAndUpdated (newFakeReconciler zero_Deployment (test_config ''test-1'' ''test''))
   = (False, None)"
  by (simp add: test_defs)

lemma TestAvailableAndUpdated_case4:
  "AvailableAndUpdated (newFakeReconciler (test_deployment ''test-2'') (test_config ''test-1'' ''test''))
   = (False, None)"
  by (simp add: test_defs)

text \<open>
  Claim C3, as stated, fails: with the configured name \<open>test2\<close> (case 2 of the test) no
  configuration resource and no workload of the derived name \<open>cluster-autoscaler-test2\<close>
  exist, and the predicate answers \<open>true\<close> with no error.
\<close>

theorem AvailableAndUpdated_true_without_workload:
  "AvailableAndUpdated
     (newFakeReconciler (test_deployment ''test-1'') (test_config ''test-2'' ''test2''))
   = (True, None)
   \<and> get_Deployment
       (client (newFakeReconciler (test_deployment ''test-1'') (test_config ''test-2'' ''test2'')))
       (TestNamespace, ''cluster-autoscaler-test2'')
     = Inl (StatusError StatusReasonNotFound ''not found'')"
  by (simp add: test_defs)

text \<open>
  Claim C3, amended.  When the configuration resource of the configured name exists, the
  predicate answers \<open>true\<close> exactly when the workload of the derived name exists in the
  configured namespace, has at least one available replica and carries the configured
  release version in its annotation; a missing workload, a stale annotation and zero
  available replicas answer \<open>false\<close> with no error, and the error is the one of a failed
  fetch of the workload that is not ``not found''.  When the fetch of the configuration
  resource fails, the answer is \<open>true\<close> with no error for ``not found'' and \<open>false\<close> with
  the error otherwise.
\<close>

theorem AvailableAndUpdated_result:
  "(\<forall>ca. get_ClusterAutoscaler (client r) (config_Namespace (config r), config_Name (config r))
          = Inr ca \<longrightarrow>
      (fst (AvailableAndUpdated r) \<longleftrightarrow>
         (\<exists>dep. get_Deployment (client r)
                  (config_Namespace (config r), ''cluster-autoscaler-'' @ Name (ca_ObjectMeta ca))
                = Inr dep
            \<and> 1 \<le> sint (AvailableReplicas (deployment_Status dep))
            \<and> Annotations (deployment_ObjectMeta dep) ReleaseVersionAnnotation
                = Some (ReleaseVersion (config r))))
      \<and> snd (AvailableAndUpdated r) =
          (case get_Deployment (client r)
                  (config_Namespace (config r), ''cluster-autoscaler-'' @ Name (ca_ObjectMeta ca)) of
             Inl e \<Rightarrow> if IsNotFound (Some e) then None else Some e
           | Inr dep \<Rightarrow> None))
   \<and> (\<forall>e. get_ClusterAutoscaler (client r) (config_Namespace (config r), config_Name (config r))
          = Inl e \<longrightarrow>
      AvailableAndUpdated r = (if IsNotFound (Some e) then (True, None) else (False, Some e)))"
  by (auto simp add: AvailableAndUpdated_def Let_def split: sum.splits)

theorem AvailableAndUpdated_result_witness:
  "get_ClusterAutoscaler
     (client (newFakeReconciler (test_deployment ''test-1'') (test_config ''test-1'' ''test'')))
     (TestNamespace, ''test'') = Inr NewClusterAutoscaler
   \<and> fst (AvailableAndUpdated
        (newFakeReconciler (test_deployment ''test-1'') (test_config ''test-1'' ''test'')))
   \<and> snd (AvailableAndUpdated
        (newFakeReconciler (test_deployment ''test-1'') (test_config ''test-1'' ''test''))) = None
   \<and> \<not> fst (AvailableAndUpdated
        (newFakeReconciler (test_deployment ''test-2'') (test_config ''test-1'' ''test'')))
   \<and> snd (AvailableAndUpdated
        (newFakeReconciler (test_deployment ''test-2'') (test_config ''test-1'' ''test''))) = None
   \<and> \<not> fst (AvailableAndUpdated
        (newFakeReconciler zero_Deployment (test_config ''test-1'' ''test'')))
   \<and> snd (AvailableAndUpdated
        (newFakeReconciler zero_Deployment (test_config ''test-1'' ''test''))) = None"
proof -
  have cfg: "config (newFakeReconciler dep c) = c"
    "config_Namespace (test_config v n) = TestNamespace"
    "config_Name (test_config v n) = n"
    "ReleaseVersion (test_config v n) = v" for dep c v n
    by (simp_all add: newFakeReconciler_def test_config_def)
  have name: "Name (ca_ObjectMeta NewClusterAutoscaler) = ''test''"
    by (simp add: NewClusterAutoscaler_def)
  have get_ca: "get_ClusterAutoscaler (client (newFakeReconciler dep c)) (TestNamespace, ''test'')
      = Inr NewClusterAutoscaler" for dep c
    by (simp add: newFakeReconciler_def NewFakeClient_def NewClusterAutoscaler_def)
  have get_dep: "get_Deployment (client (newFakeReconciler dep c)) key =
      (if objectKey dep = key then Inr dep
       else Inl (StatusError StatusReasonNotFound ''not found''))" for dep c key
    by (simp add: newFakeReconciler_def NewFakeClient_def)
  have keys: "objectKey (test_deployment v) = (TestNamespace, ''cluster-autoscaler-test'')"
    "objectKey zero_Deployment \<noteq> (TestNamespace, ''cluster-autoscaler-test'')" for v
    by (simp_all add: objectKey_def test_deployment_def zero_Deployment_def zero_ObjectMeta_def)
  have dep: "Annotations (deployment_ObjectMeta (test_deployment v)) ReleaseVersionAnnotation = Some v"
    "sint (AvailableReplicas (deployment_Status (test_deployment v))) = 1" for v
    by (simp_all add: test_deployment_def)
  from AvailableAndUpdated_result
      [of "newFakeReconciler (test_deployment ''test-1'') (test_config ''test-1'' ''test'')"]
    AvailableAndUpdated_result
      [of "newFakeReconciler (test_deployment ''test-2'') (test_config ''test-1'' ''test'')"]
    AvailableAndUpdated_result
      [of "newFakeReconciler zero_Deployment (test_config ''test-1'' ''test'')"]
  show ?thesis
    by (simp add: cfg name get_ca get_dep keys dep IsNotFound_def)
qed

end
